theory Spec2Isabelle
  imports Main
begin

section \<open>Values exchanged with the host\<close>

text \<open>
  \<^verbatim>\<open>time.Duration\<close> is a signed 64-bit count of nanoseconds and the row count is an
  \<^verbatim>\<open>int64\<close>. The logger only compares them (\<^verbatim>\<open>>\<close>, \<^verbatim>\<open>!=\<close>, \<^verbatim>\<open>==\<close>) and never
  computes with them, so no wrap-around can occur and they are modelled as \<open>int\<close>.
\<close>

type_synonym Duration = int
type_synonym int64 = int

text \<open>
  Error values. \<open>ErrRecordNotFound\<close> is the package variable of line 14; \<open>ErrorNew\<close>
  stands for any other error created by the host (also one that merely carries the same
  message), \<open>Wrapped\<close> for an error whose \<^verbatim>\<open>Unwrap\<close> method yields the inner one. The Go
  \<^verbatim>\<open>error\<close> interface is nilable: an argument of that type is an \<open>error option\<close>.
\<close>

datatype error = ErrRecordNotFound | ErrorNew string | Wrapped string error

text \<open>
  \<^verbatim>\<open>errors.Is(err, target)\<close> of the Go standard library: false for a nil \<^verbatim>\<open>err\<close> and a
  non-nil target, otherwise true when \<^verbatim>\<open>err\<close> or an error on its \<^verbatim>\<open>Unwrap\<close> chain equals
  the target.
\<close>

fun unwrap_chain_has :: "error \<Rightarrow> error \<Rightarrow> bool" where
  "unwrap_chain_has (Wrapped m e) target = (Wrapped m e = target \<or> unwrap_chain_has e target)"
| "unwrap_chain_has err target = (err = target)"

definition errors_Is :: "error option \<Rightarrow> error \<Rightarrow> bool" where
  "errors_Is err target = (case err of None \<Rightarrow> False | Some e \<Rightarrow> unwrap_chain_has e target)"

text \<open>
  The only \<^verbatim>\<open>float64\<close> the logger builds is \<^verbatim>\<open>float64(elapsed.Nanoseconds())/1e6\<close>; it is
  carried as that quotient of a nanosecond count, never rounded or printed here.
\<close>

datatype float64 = NanosecondsDiv1e6 int64

record GormInfos =
  Location :: string
  AffectedRows :: int64
  QueryDuration :: float64
  Sql :: string
  Err :: "error option"

text \<open>
  A value passed for a \<^verbatim>\<open>...interface{}\<close> parameter of \<^verbatim>\<open>Printf\<close>. The string built by
  \<^verbatim>\<open>fmt.Sprintf\<close> is kept as its format and arguments: rendering belongs to the standard
  library and to the injected writer.
\<close>

datatype arg =
    VString string
  | VError "error option"
  | VFloat64 float64
  | VInt64 int64
  | VDuration Duration
  | VSprintf string "arg list"

text \<open>
  What a call of \<^verbatim>\<open>Trace\<close> does to the outside, in program order: it calls a registered
  function (through the field \<^verbatim>\<open>always\<close>, \<^verbatim>\<open>warns\<close> or \<^verbatim>\<open>errors\<close> of \<^verbatim>\<open>Execution\<close>) with a
  \<^verbatim>\<open>GormInfos\<close>, or it calls \<^verbatim>\<open>Printf\<close> of the embedded \<^verbatim>\<open>Writer\<close>. \<open>'f\<close> is the type of
  the host's callback values and \<open>'w\<close> of its writers. The callee's body is the host's:
  every call is taken to return, as \<^verbatim>\<open>Trace\<close> has no \<^verbatim>\<open>recover\<close> and a callee that panics
  unwinds it at that call.
\<close>

datatype field = always_field | warns_field | errors_field

datatype ('w, 'f) event =
    is_Call: Call field 'f GormInfos
  | is_Printf: Printf 'w string "arg list"

text \<open>
  What \<^verbatim>\<open>Trace\<close> reads from the outside: \<^verbatim>\<open>time.Since(begin)\<close> and the two results of
  \<^verbatim>\<open>utils.FileWithLineNum()\<close>, the first stored in the record (line 200), the second
  passed to \<^verbatim>\<open>Printf\<close> (lines 226 to 241).
\<close>

record reading =
  since_begin :: Duration
  location_record :: string
  location_line :: string

section \<open>Log levels\<close>

text \<open>
  Modelled from the spec: the ordered enumeration Silent, Error, Warn, Info of the host
  library's \<^verbatim>\<open>logger.LogLevel\<close> (package \<^verbatim>\<open>gorm.io/gorm/logger\<close>, imported as \<^verbatim>\<open>lg\<close> and not
  part of this repository). It is an \<^verbatim>\<open>int\<close> type there, numbered from 1, so a
  \<^verbatim>\<open>Config\<close> can also hold a level outside the four names (0 for a zero \<^verbatim>\<open>Config\<close>).
\<close>

type_synonym LogLevel = int

definition Silent :: LogLevel where "Silent = 1"
definition Error :: LogLevel where "Error = 2"
definition Warn :: LogLevel where "Warn = 3"
definition Info :: LogLevel where "Info = 4"

section \<open>Colors and templates\<close>

definition ESC :: string where "ESC = [CHR 0x1B]"

definition Reset :: string where "Reset = ESC @ ''[0m''"
definition Red :: string where "Red = ESC @ ''[31m''"
definition Green :: string where "Green = ESC @ ''[32m''"
definition Yellow :: string where "Yellow = ESC @ ''[33m''"
definition Blue :: string where "Blue = ESC @ ''[34m''"
definition Magenta :: string where "Magenta = ESC @ ''[35m''"
definition Cyan :: string where "Cyan = ESC @ ''[36m''"
definition White :: string where "White = ESC @ ''[37m''"
definition BlueBold :: string where "BlueBold = ESC @ ''[34;1m''"
definition MagentaBold :: string where "MagentaBold = ESC @ ''[35;1m''"
definition RedBold :: string where "RedBold = ESC @ ''[31;1m''"
definition YellowBold :: string where "YellowBold = ESC @ ''[33;1m''"

definition LF :: string where "LF = [CHR 0x0A]"

section \<open>The logger\<close>

record Config =
  SlowThreshold :: Duration
  Colorful :: bool
  IgnoreRecordNotFoundError :: bool
  LogLevel :: LogLevel

text \<open>A \<^verbatim>\<open>func(g GormInfos)\<close> field is nil or a function: \<open>'f option\<close>.\<close>

record 'f Execution =
  always :: "'f option"
  warns :: "'f option"
  slowSqlTrigger :: Duration
  errors :: "'f option"
  considerRecordNotFoundError :: bool

record ('w, 'f) customLogger =
  Writer :: 'w
  Config :: Config
  Execution :: "'f Execution"
  infoStr :: string
  warnStr :: string
  errStr :: string
  traceStr :: string
  traceErrStr :: string
  traceWarnStr :: string

text \<open>The zero value of \<^verbatim>\<open>Execution\<close>, which the struct literal of \<^verbatim>\<open>New\<close> leaves in place.\<close>

definition Execution_zero :: "'f Execution" where
  "Execution_zero =
     \<lparr>always = None, warns = None, slowSqlTrigger = 0, errors = None,
      considerRecordNotFoundError = False\<rparr>"

text \<open>The struct that \<^verbatim>\<open>New\<close> builds (lines 78 to 105), before its address is taken.\<close>

definition New_struct :: "'w \<Rightarrow> Config \<Rightarrow> ('w, 'f) customLogger" where
  "New_struct writer config =
     (if Colorful config then
        \<lparr>Writer = writer, Config = config, Execution = Execution_zero,
         infoStr = Green @ ''%s'' @ LF @ Reset @ Green @ ''[info] '' @ Reset,
         warnStr = BlueBold @ ''%s'' @ LF @ Reset @ Magenta @ ''[warn] '' @ Reset,
         errStr = Magenta @ ''%s'' @ LF @ Reset @ Red @ ''[error] '' @ Reset,
         traceStr = Green @ ''%s'' @ LF @ Reset @ Yellow @ ''[%.3fms] '' @ BlueBold
                    @ ''[rows:%v]'' @ Reset @ '' %s'',
         traceErrStr = RedBold @ ''%s '' @ MagentaBold @ ''%s'' @ LF @ Reset @ Yellow
                    @ ''[%.3fms] '' @ BlueBold @ ''[rows:%v]'' @ Reset @ '' %s'',
         traceWarnStr = Green @ ''%s '' @ Yellow @ ''%s'' @ LF @ Reset @ RedBold
                    @ ''[%.3fms] '' @ Yellow @ ''[rows:%v]'' @ Magenta @ '' %s'' @ Reset\<rparr>
      else
        \<lparr>Writer = writer, Config = config, Execution = Execution_zero,
         infoStr = ''%s'' @ LF @ ''[info] '',
         warnStr = ''%s'' @ LF @ ''[warn] '',
         errStr = ''%s'' @ LF @ ''[error] '',
         traceStr = ''%s'' @ LF @ ''[%.3fms] [rows:%v] %s'',
         traceErrStr = ''%s %s'' @ LF @ ''[%.3fms] [rows:%v] %s'',
         traceWarnStr = ''%s %s'' @ LF @ ''[%.3fms] [rows:%v] %s''\<rparr>)"

subsection \<open>Trace\<close>

text \<open>
  \<^verbatim>\<open>Trace\<close> has a value receiver: it works on a copy of the struct and is a function of it.
  \<open>fc\<close> is the pair that the thunk \<^verbatim>\<open>fc()\<close> returns, \<open>r\<close> what the call reads from the
  clock and the call stack. The result lists the calls made, in program order.
\<close>

text \<open>
  Calling a callback field when it is set: \<^verbatim>\<open>if l.always != nil { l.always(g) }\<close> makes
  the call through the field, and nothing when the field is nil.
\<close>

fun invoke :: "field \<Rightarrow> 'f option \<Rightarrow> GormInfos \<Rightarrow> ('w, 'f) event list" where
  "invoke fld None g = []"
| "invoke fld (Some f) g = [Call fld f g]"

definition Trace ::
  "('w, 'f) customLogger \<Rightarrow> reading \<Rightarrow> string \<times> int64 \<Rightarrow> error option \<Rightarrow> ('w, 'f) event list"
where
  "Trace l r fc err =
     (let (sql, rows) = fc;
          elapsed = since_begin r;
          slowSql = (elapsed > SlowThreshold (Config l) \<and> SlowThreshold (Config l) \<noteq> 0);
          g = \<lparr>Location = location_record r, AffectedRows = rows,
               QueryDuration = NanosecondsDiv1e6 elapsed, Sql = sql, Err = err\<rparr>
      in
        (if always (Execution l) \<noteq> None then invoke always_field (always (Execution l)) g
         else [])
        @
        (if slowSqlTrigger (Execution l) \<noteq> 0 \<and> elapsed > slowSqlTrigger (Execution l)
            \<and> warns (Execution l) \<noteq> None
         then invoke warns_field (warns (Execution l)) g
         else [])
        @
        (if err \<noteq> None
            \<and> (\<not> errors_Is err ErrRecordNotFound \<or> considerRecordNotFoundError (Execution l))
            \<and> errors (Execution l) \<noteq> None
         then invoke errors_field (errors (Execution l)) g
         else [])
        @
        (if LogLevel (Config l) \<le> Silent then []
         else if err \<noteq> None \<and> LogLevel (Config l) \<ge> Error
                 \<and> (\<not> errors_Is err ErrRecordNotFound \<or> \<not> IgnoreRecordNotFoundError (Config l))
         then
           (if rows = -1
            then [Printf (Writer l) (traceErrStr l)
                    [VString (location_line r), VError err,
                     VFloat64 (NanosecondsDiv1e6 elapsed), VString ''-'', VString sql]]
            else [Printf (Writer l) (traceErrStr l)
                    [VString (location_line r), VError err,
                     VFloat64 (NanosecondsDiv1e6 elapsed), VInt64 rows, VString sql]])
         else if slowSql \<and> LogLevel (Config l) \<ge> Warn
         then
           (let slowLog = VSprintf ''SLOW SQL >= %v'' [VDuration (SlowThreshold (Config l))]
            in if rows = -1
               then [Printf (Writer l) (traceWarnStr l)
                       [VString (location_line r), slowLog,
                        VFloat64 (NanosecondsDiv1e6 elapsed), VString ''-'', VString sql]]
               else [Printf (Writer l) (traceWarnStr l)
                       [VString (location_line r), slowLog,
                        VFloat64 (NanosecondsDiv1e6 elapsed), VInt64 rows, VString sql]])
         else if LogLevel (Config l) = Info
         then
           (if rows = -1
            then [Printf (Writer l) (traceStr l)
                    [VString (location_line r),
                     VFloat64 (NanosecondsDiv1e6 elapsed), VString ''-'', VString sql]]
            else [Printf (Writer l) (traceStr l)
                    [VString (location_line r),
                     VFloat64 (NanosecondsDiv1e6 elapsed), VInt64 rows, VString sql]])
         else []))"

subsection \<open>The record and the three lines of Trace, named\<close>

text \<open>The \<^verbatim>\<open>GormInfos\<close> of lines 199 to 205.\<close>

definition trace_infos :: "reading \<Rightarrow> string \<times> int64 \<Rightarrow> error option \<Rightarrow> GormInfos" where
  "trace_infos r fc err =
     \<lparr>Location = location_record r, AffectedRows = snd fc,
      QueryDuration = NanosecondsDiv1e6 (since_begin r), Sql = fst fc, Err = err\<rparr>"

text \<open>The value passed for the \<^verbatim>\<open>[rows:%v]\<close> verb (lines 225, 232, 238).\<close>

definition rows_arg :: "int64 \<Rightarrow> arg" where
  "rows_arg rows = (if rows = -1 then VString ''-'' else VInt64 rows)"

text \<open>The \<^verbatim>\<open>Printf\<close> call of the first case of the switch (lines 225 to 229).\<close>

definition error_trace_line ::
  "('w, 'f) customLogger \<Rightarrow> reading \<Rightarrow> string \<times> int64 \<Rightarrow> error option \<Rightarrow> ('w, 'f) event"
where
  "error_trace_line l r fc err =
     Printf (Writer l) (traceErrStr l)
       [VString (location_line r), VError err, VFloat64 (NanosecondsDiv1e6 (since_begin r)),
        rows_arg (snd fc), VString (fst fc)]"

text \<open>The \<^verbatim>\<open>Printf\<close> call of the second case (lines 231 to 236).\<close>

definition slow_trace_line ::
  "('w, 'f) customLogger \<Rightarrow> reading \<Rightarrow> string \<times> int64 \<Rightarrow> ('w, 'f) event"
where
  "slow_trace_line l r fc =
     Printf (Writer l) (traceWarnStr l)
       [VString (location_line r),
        VSprintf ''SLOW SQL >= %v'' [VDuration (SlowThreshold (Config l))],
        VFloat64 (NanosecondsDiv1e6 (since_begin r)), rows_arg (snd fc), VString (fst fc)]"

text \<open>The \<^verbatim>\<open>Printf\<close> call of the third case (lines 238 to 242).\<close>

definition info_trace_line ::
  "('w, 'f) customLogger \<Rightarrow> reading \<Rightarrow> string \<times> int64 \<Rightarrow> ('w, 'f) event"
where
  "info_trace_line l r fc =
     Printf (Writer l) (traceStr l)
       [VString (location_line r), VFloat64 (NanosecondsDiv1e6 (since_begin r)),
        rows_arg (snd fc), VString (fst fc)]"

definition calls_of :: "('w, 'f) event list \<Rightarrow> ('w, 'f) event list" where
  "calls_of evs = filter is_Call evs"

definition lines_of :: "('w, 'f) event list \<Rightarrow> ('w, 'f) event list" where
  "lines_of evs = filter is_Printf evs"

text \<open>
  The place of an event in the order that the comment above \<^verbatim>\<open>Trace\<close> announces
  (AlwaysTrigger, SlowTrigger, ErrorTrigger), the formatted line last.
\<close>

fun rank :: "('w, 'f) event \<Rightarrow> nat" where
  "rank (Call always_field f g) = 0"
| "rank (Call warns_field f g) = 1"
| "rank (Call errors_field f g) = 2"
| "rank (Printf w fmt args) = 3"

subsection \<open>The four steps of Trace\<close>

text \<open>
  The three conditional calls (lines 207 to 217) and the switch (lines 219 to 243), each
  as the list of calls it makes; \<open>Trace_steps\<close> below shows that \<open>Trace\<close> is their
  concatenation.
\<close>

definition always_step :: "('w, 'f) customLogger \<Rightarrow> GormInfos \<Rightarrow> ('w, 'f) event list" where
  "always_step l g =
     (if always (Execution l) \<noteq> None then invoke always_field (always (Execution l)) g
      else [])"

definition slow_step ::
  "('w, 'f) customLogger \<Rightarrow> Duration \<Rightarrow> GormInfos \<Rightarrow> ('w, 'f) event list"
where
  "slow_step l elapsed g =
     (if slowSqlTrigger (Execution l) \<noteq> 0 \<and> elapsed > slowSqlTrigger (Execution l)
         \<and> warns (Execution l) \<noteq> None
      then invoke warns_field (warns (Execution l)) g
      else [])"

definition error_step ::
  "('w, 'f) customLogger \<Rightarrow> error option \<Rightarrow> GormInfos \<Rightarrow> ('w, 'f) event list"
where
  "error_step l err g =
     (if err \<noteq> None
         \<and> (\<not> errors_Is err ErrRecordNotFound \<or> considerRecordNotFoundError (Execution l))
         \<and> errors (Execution l) \<noteq> None
      then invoke errors_field (errors (Execution l)) g
      else [])"

definition line_step ::
  "('w, 'f) customLogger \<Rightarrow> reading \<Rightarrow> string \<times> int64 \<Rightarrow> error option \<Rightarrow> ('w, 'f) event list"
where
  "line_step l r fc err =
     (if LogLevel (Config l) \<le> Silent then []
      else if err \<noteq> None \<and> LogLevel (Config l) \<ge> Error
              \<and> (\<not> errors_Is err ErrRecordNotFound \<or> \<not> IgnoreRecordNotFoundError (Config l))
      then (if snd fc = -1
            then [Printf (Writer l) (traceErrStr l)
                    [VString (location_line r), VError err,
                     VFloat64 (NanosecondsDiv1e6 (since_begin r)), VString ''-'',
                     VString (fst fc)]]
            else [Printf (Writer l) (traceErrStr l)
                    [VString (location_line r), VError err,
                     VFloat64 (NanosecondsDiv1e6 (since_begin r)), VInt64 (snd fc),
                     VString (fst fc)]])
      else if (since_begin r > SlowThreshold (Config l) \<and> SlowThreshold (Config l) \<noteq> 0)
              \<and> LogLevel (Config l) \<ge> Warn
      then (if snd fc = -1
            then [Printf (Writer l) (traceWarnStr l)
                    [VString (location_line r),
                     VSprintf ''SLOW SQL >= %v'' [VDuration (SlowThreshold (Config l))],
                     VFloat64 (NanosecondsDiv1e6 (since_begin r)), VString ''-'',
                     VString (fst fc)]]
            else [Printf (Writer l) (traceWarnStr l)
                    [VString (location_line r),
                     VSprintf ''SLOW SQL >= %v'' [VDuration (SlowThreshold (Config l))],
                     VFloat64 (NanosecondsDiv1e6 (since_begin r)), VInt64 (snd fc),
                     VString (fst fc)]])
      else if LogLevel (Config l) = Info
      then (if snd fc = -1
            then [Printf (Writer l) (traceStr l)
                    [VString (location_line r),
                     VFloat64 (NanosecondsDiv1e6 (since_begin r)), VString ''-'',
                     VString (fst fc)]]
            else [Printf (Writer l) (traceStr l)
                    [VString (location_line r),
                     VFloat64 (NanosecondsDiv1e6 (since_begin r)), VInt64 (snd fc),
                     VString (fst fc)]])
      else [])"

subsection \<open>The format branch as the specification words it\<close>

text \<open>
  The selection of step 8 of the specification, read top to bottom: the error branch,
  then the slow branch, then the info branch, else no line.
\<close>

datatype branch = ErrorBranch | SlowBranch | InfoBranch | NoLine

definition spec_branch :: "Config \<Rightarrow> Duration \<Rightarrow> error option \<Rightarrow> branch" where
  "spec_branch c elapsed err =
     (if err \<noteq> None \<and> LogLevel c \<ge> Error
         \<and> (\<not> errors_Is err ErrRecordNotFound \<or> \<not> IgnoreRecordNotFoundError c)
      then ErrorBranch
      else if elapsed > SlowThreshold c \<and> SlowThreshold c \<noteq> 0 \<and> LogLevel c \<ge> Warn
      then SlowBranch
      else if LogLevel c = Info then InfoBranch
      else NoLine)"

section \<open>Loggers behind pointers\<close>

text \<open>
  \<^verbatim>\<open>New\<close>, \<^verbatim>\<open>LogMode\<close>, \<^verbatim>\<open>SetSlowSqlThreshold\<close> and the registration methods work on
  \<^verbatim>\<open>*customLogger\<close>. The heap lists the allocated structs, a pointer is nil or the index
  of one, and dereferencing nil panics.
\<close>

datatype ref = nil | Ref nat

datatype panic = NilPointerDereference

type_synonym ('w, 'f) heap = "('w, 'f) customLogger list"

fun deref :: "('w, 'f) heap \<Rightarrow> ref \<Rightarrow> panic + ('w, 'f) customLogger" where
  "deref h nil = Inl NilPointerDereference"
| "deref h (Ref a) = (if a < length h then Inr (h ! a) else Inl NilPointerDereference)"

fun assign :: "('w, 'f) heap \<Rightarrow> ref \<Rightarrow> ('w, 'f) customLogger \<Rightarrow> ('w, 'f) heap" where
  "assign h nil c = h"
| "assign h (Ref a) c = h[a := c]"

definition alloc :: "('w, 'f) customLogger \<Rightarrow> ('w, 'f) heap \<Rightarrow> ref \<times> ('w, 'f) heap" where
  "alloc c h = (Ref (length h), h @ [c])"

definition New :: "'w \<Rightarrow> Config \<Rightarrow> ('w, 'f) heap \<Rightarrow> ref \<times> ('w, 'f) heap" where
  "New writer config h = alloc (New_struct writer config) h"

definition SetSlowSqlThreshold ::
  "ref \<Rightarrow> Duration \<Rightarrow> ('w, 'f) heap \<Rightarrow> panic + ('w, 'f) heap"
where
  "SetSlowSqlThreshold l t h =
     (case deref h l of
        Inl p \<Rightarrow> Inl p
      | Inr c \<Rightarrow> Inr (assign h l (c\<lparr>Config := (Config c)\<lparr>SlowThreshold := t\<rparr>\<rparr>)))"

definition LogMode ::
  "ref \<Rightarrow> LogLevel \<Rightarrow> ('w, 'f) heap \<Rightarrow> panic + ref \<times> ('w, 'f) heap"
where
  "LogMode l level h =
     (case deref h l of
        Inl p \<Rightarrow> Inl p
      | Inr c \<Rightarrow>
          (let newLogger = c;
               newLogger = newLogger\<lparr>Config := (Config newLogger)\<lparr>LogLevel := level\<rparr>\<rparr>
           in Inr (alloc newLogger h)))"

definition FixTriggers :: "ref \<Rightarrow> ref" where
  "FixTriggers l = l"

definition AlwaysTrigger ::
  "ref \<Rightarrow> 'f option \<Rightarrow> ('w, 'f) heap \<Rightarrow> panic + ref \<times> ('w, 'f) heap"
where
  "AlwaysTrigger l f h =
     (case deref h l of
        Inl p \<Rightarrow> Inl p
      | Inr c \<Rightarrow> Inr (l, assign h l (c\<lparr>Execution := (Execution c)\<lparr>always := f\<rparr>\<rparr>)))"

definition SlowTrigger ::
  "ref \<Rightarrow> 'f option \<Rightarrow> Duration \<Rightarrow> ('w, 'f) heap \<Rightarrow> panic + ref \<times> ('w, 'f) heap"
where
  "SlowTrigger l f duration h =
     (case deref h l of
        Inl p \<Rightarrow> Inl p
      | Inr c \<Rightarrow>
          Inr (l, assign h l
                 (c\<lparr>Execution := (Execution c)\<lparr>warns := f, slowSqlTrigger := duration\<rparr>\<rparr>)))"

definition ErrorTrigger ::
  "ref \<Rightarrow> 'f option \<Rightarrow> ('w, 'f) heap \<Rightarrow> panic + ref \<times> ('w, 'f) heap"
where
  "ErrorTrigger l f h =
     (case deref h l of
        Inl p \<Rightarrow> Inl p
      | Inr c \<Rightarrow> Inr (l, assign h l (c\<lparr>Execution := (Execution c)\<lparr>errors := f\<rparr>\<rparr>)))"

definition ConsiderNotFound ::
  "ref \<Rightarrow> bool \<Rightarrow> ('w, 'f) heap \<Rightarrow> panic + ref \<times> ('w, 'f) heap"
where
  "ConsiderNotFound l b h =
     (case deref h l of
        Inl p \<Rightarrow> Inl p
      | Inr c \<Rightarrow>
          Inr (l, assign h l
                 (c\<lparr>Execution := (Execution c)\<lparr>considerRecordNotFoundError := b\<rparr>\<rparr>)))"

text \<open>
  The host holds the logger as an interface value wrapping the pointer; calling the
  value-receiver method \<^verbatim>\<open>Trace\<close> through it copies the struct first.
\<close>

definition Trace_at ::
  "ref \<Rightarrow> ('w, 'f) heap \<Rightarrow> reading \<Rightarrow> string \<times> int64 \<Rightarrow> error option
     \<Rightarrow> panic + ('w, 'f) event list"
where
  "Trace_at l h r fc err =
     (case deref h l of Inl p \<Rightarrow> Inl p | Inr c \<Rightarrow> Inr (Trace c r fc err))"

section \<open>The package's default logger and a configured one\<close>

text \<open>The \<^verbatim>\<open>Config\<close> of the package variable \<^verbatim>\<open>Default\<close> (lines 66 to 74).\<close>

definition Default_config :: Config where
  "Default_config =
     \<lparr>SlowThreshold = 200 * 1000000, Colorful = True, IgnoreRecordNotFoundError = False,
      LogLevel = Warn\<rparr>"

definition Default_struct :: "(string, string) customLogger" where
  "Default_struct = New_struct ''os.Stdout'' Default_config"

text \<open>
  \<^verbatim>\<open>Default\<close> after \<^verbatim>\<open>AlwaysTrigger(dbBreadCrumb)\<close>, \<^verbatim>\<open>SlowTrigger(dbSlow, 100ms)\<close> and
  \<^verbatim>\<open>ErrorTrigger(dbError)\<close>, the callbacks named as in the readme.
\<close>

definition sentry_struct :: "(string, string) customLogger" where
  "sentry_struct =
     Default_struct\<lparr>Execution :=
       \<lparr>always = Some ''dbBreadCrumb'', warns = Some ''dbSlow'',
        slowSqlTrigger = 100 * 1000000, errors = Some ''dbError'',
        considerRecordNotFoundError = False\<rparr>\<rparr>"

text \<open>The same logger after \<^verbatim>\<open>ConsiderNotFound(true)\<close>.\<close>

definition considering_struct :: "(string, string) customLogger" where
  "considering_struct =
     sentry_struct\<lparr>Execution :=
       (Execution sentry_struct)\<lparr>considerRecordNotFoundError := True\<rparr>\<rparr>"

text \<open>What the thunk of a statement returns: its text and the rows it affected.\<close>

definition users_query :: "string \<times> int64" where
  "users_query = (''SELECT * FROM users'', 3)"

text \<open>A statement that took 250ms, and one that took 50ms.\<close>

definition slow_reading :: reading where
  "slow_reading =
     \<lparr>since_begin = 250 * 1000000, location_record = ''main.go:42'',
      location_line = ''main.go:42''\<rparr>"

definition fast_reading :: reading where
  "fast_reading =
     \<lparr>since_begin = 50 * 1000000, location_record = ''main.go:42'',
      location_line = ''main.go:42''\<rparr>"

section \<open>How Trace decomposes\<close>

lemma unwrap_chain_has_refl: "unwrap_chain_has e e"
  by (cases e) simp_all

lemma errors_Is_sentinel: "errors_Is (Some ErrRecordNotFound) ErrRecordNotFound"
  by (simp add: errors_Is_def)

lemma errors_Is_not_nil: "errors_Is err target \<Longrightarrow> err \<noteq> None"
  by (cases err) (simp_all add: errors_Is_def)

lemma Trace_steps:
  "Trace l r fc err =
     always_step l (trace_infos r fc err) @ slow_step l (since_begin r) (trace_infos r fc err)
     @ error_step l err (trace_infos r fc err) @ line_step l r fc err"
  by (cases fc)
     (simp add: Trace_def Let_def always_step_def slow_step_def error_step_def
        line_step_def trace_infos_def split del: if_split cong: if_cong)

lemma line_step_branch:
  "line_step l r fc err =
     (if LogLevel (Config l) \<le> Silent then []
      else case spec_branch (Config l) (since_begin r) err of
             ErrorBranch \<Rightarrow> [error_trace_line l r fc err]
           | SlowBranch \<Rightarrow> [slow_trace_line l r fc]
           | InfoBranch \<Rightarrow> [info_trace_line l r fc]
           | NoLine \<Rightarrow> [])"
  by (simp add: line_step_def spec_branch_def error_trace_line_def slow_trace_line_def
      info_trace_line_def rows_arg_def Silent_def Error_def Warn_def Info_def)

lemma calls_of_invoke [simp]: "calls_of (invoke fld x g) = invoke fld x g"
  by (cases x) (simp_all add: calls_of_def)

lemma lines_of_invoke [simp]: "lines_of (invoke fld x g) = []"
  by (cases x) (simp_all add: lines_of_def)

lemma calls_of_Nil [simp]: "calls_of [] = []"
  by (simp add: calls_of_def)

lemma lines_of_Nil [simp]: "lines_of [] = []"
  by (simp add: lines_of_def)

lemma calls_of_append [simp]: "calls_of (xs @ ys) = calls_of xs @ calls_of ys"
  by (simp add: calls_of_def)

lemma lines_of_append [simp]: "lines_of (xs @ ys) = lines_of xs @ lines_of ys"
  by (simp add: lines_of_def)

lemma calls_of_always_step [simp]: "calls_of (always_step l g) = always_step l g"
  by (simp add: always_step_def)

lemma calls_of_slow_step [simp]: "calls_of (slow_step l e g) = slow_step l e g"
  by (simp add: slow_step_def)

lemma calls_of_error_step [simp]: "calls_of (error_step l err g) = error_step l err g"
  by (simp add: error_step_def)

lemma lines_of_always_step [simp]: "lines_of (always_step l g) = []"
  by (simp add: always_step_def)

lemma lines_of_slow_step [simp]: "lines_of (slow_step l e g) = []"
  by (simp add: slow_step_def)

lemma lines_of_error_step [simp]: "lines_of (error_step l err g) = []"
  by (simp add: error_step_def)

lemma lines_of_line_step [simp]: "lines_of (line_step l r fc err) = line_step l r fc err"
  by (simp add: lines_of_def line_step_def)

lemma calls_of_line_step [simp]: "calls_of (line_step l r fc err) = []"
  by (simp add: calls_of_def line_step_def)

lemma calls_of_Trace:
  "calls_of (Trace l r fc err) =
     always_step l (trace_infos r fc err) @ slow_step l (since_begin r) (trace_infos r fc err)
     @ error_step l err (trace_infos r fc err)"
  by (simp add: Trace_steps)

lemma lines_of_Trace: "lines_of (Trace l r fc err) = line_step l r fc err"
  by (simp add: Trace_steps)

lemma Trace_calls_then_lines:
  "Trace l r fc err = calls_of (Trace l r fc err) @ lines_of (Trace l r fc err)"
  by (simp add: calls_of_Trace lines_of_Trace) (simp add: Trace_steps)

subsection \<open>Which calls each step makes\<close>

lemma in_invoke: "e \<in> set (invoke fld x g) \<longleftrightarrow> (\<exists>f. x = Some f \<and> e = Call fld f g)"
  by (cases x) auto

lemma Call_in_always_step:
  "Call fld f g \<in> set (always_step l g') \<longleftrightarrow>
     fld = always_field \<and> always (Execution l) = Some f \<and> g = g'"
  by (auto simp: always_step_def in_invoke)

lemma Call_in_slow_step:
  "Call fld f g \<in> set (slow_step l e g') \<longleftrightarrow>
     fld = warns_field \<and> slowSqlTrigger (Execution l) \<noteq> 0 \<and> e > slowSqlTrigger (Execution l)
     \<and> warns (Execution l) = Some f \<and> g = g'"
  by (auto simp: slow_step_def in_invoke)

lemma Call_in_error_step:
  "Call fld f g \<in> set (error_step l err g') \<longleftrightarrow>
     fld = errors_field \<and> err \<noteq> None
     \<and> (\<not> errors_Is err ErrRecordNotFound \<or> considerRecordNotFoundError (Execution l))
     \<and> errors (Execution l) = Some f \<and> g = g'"
  by (auto simp: error_step_def in_invoke)

lemma Call_notin_line_step: "Call fld f g \<notin> set (line_step l r fc err)"
  by (simp add: line_step_def)

lemma Printf_notin_steps:
  "Printf w fmt args \<notin> set (always_step l g)"
  "Printf w fmt args \<notin> set (slow_step l e g)"
  "Printf w fmt args \<notin> set (error_step l err g)"
  by (auto simp: always_step_def slow_step_def error_step_def in_invoke)

lemma Printf_in_Trace:
  "Printf w fmt args \<in> set (Trace l r fc err) \<longleftrightarrow> Printf w fmt args \<in> set (line_step l r fc err)"
  by (simp add: Trace_steps Printf_notin_steps)

lemma Call_in_Trace:
  "Call fld f g \<in> set (Trace l r fc err) \<longleftrightarrow>
     Call fld f g \<in> set (always_step l (trace_infos r fc err))
     \<or> Call fld f g \<in> set (slow_step l (since_begin r) (trace_infos r fc err))
     \<or> Call fld f g \<in> set (error_step l err (trace_infos r fc err))"
  by (simp add: Trace_steps Call_notin_line_step)

lemma trace_lines_distinct:
  "error_trace_line l r fc err \<noteq> slow_trace_line l r fc"
  "error_trace_line l r fc err \<noteq> info_trace_line l r fc"
  "slow_trace_line l r fc \<noteq> info_trace_line l r fc"
  by (simp_all add: error_trace_line_def slow_trace_line_def info_trace_line_def)

subsection \<open>The order of the steps\<close>

lemma rank_invoke:
  "map rank (invoke always_field x g :: ('w, 'f) event list) = (if x = None then [] else [0])"
  "map rank (invoke warns_field x g :: ('w, 'f) event list) = (if x = None then [] else [1])"
  "map rank (invoke errors_field x g :: ('w, 'f) event list) = (if x = None then [] else [2])"
  by (cases x; simp)+

lemma length_invoke: "length (invoke fld x g) \<le> Suc 0"
  by (cases x) simp_all

lemma rank_steps:
  "\<forall>x\<in>set (always_step l g). rank x = 0"
  "\<forall>x\<in>set (slow_step l e g). rank x = 1"
  "\<forall>x\<in>set (error_step l err g). rank x = 2"
  "\<forall>x\<in>set (line_step l r fc err). rank x = 3"
  by (auto simp: always_step_def slow_step_def error_step_def line_step_def in_invoke)

lemma length_steps:
  "length (always_step l g) \<le> Suc 0"
  "length (slow_step l e g) \<le> Suc 0"
  "length (error_step l err g) \<le> Suc 0"
  "length (line_step l r fc err) \<le> Suc 0"
  by (simp_all add: always_step_def slow_step_def error_step_def line_step_def length_invoke)

lemma sorted_short: "length xs \<le> Suc 0 \<Longrightarrow> sorted_wrt P xs"
  by (cases xs) auto

lemma Trace_rank_sorted: "sorted_wrt (<) (map rank (Trace l r fc err))"
proof -
  let ?g = "trace_infos r fc err"
  have "sorted_wrt (<) (map rank (always_step l ?g))"
    and "sorted_wrt (<) (map rank (slow_step l (since_begin r) ?g))"
    and "sorted_wrt (<) (map rank (error_step l err ?g))"
    and "sorted_wrt (<) (map rank (line_step l r fc err))"
    by (rule sorted_short, simp add: length_steps)+
  then show ?thesis
    unfolding Trace_steps
    using rank_steps(1) [of l ?g] rank_steps(2) [of l "since_begin r" ?g]
      rank_steps(3) [of l err ?g] rank_steps(4) [of l r fc err]
    by (auto simp: sorted_wrt_append)
qed

subsection \<open>What each step reads\<close>

lemma steps_Config_update:
  "always_step (l\<lparr>Config := c\<rparr>) g = always_step l g"
  "slow_step (l\<lparr>Config := c\<rparr>) e g = slow_step l e g"
  "error_step (l\<lparr>Config := c\<rparr>) err g = error_step l err g"
  by (simp_all add: always_step_def slow_step_def error_step_def)

lemma steps_consider_update:
  "always_step (l\<lparr>Execution := (Execution l)\<lparr>considerRecordNotFoundError := b\<rparr>\<rparr>) g
     = always_step l g"
  "slow_step (l\<lparr>Execution := (Execution l)\<lparr>considerRecordNotFoundError := b\<rparr>\<rparr>) e g
     = slow_step l e g"
  by (simp_all add: always_step_def slow_step_def)

lemma line_step_Execution_update: "line_step (l\<lparr>Execution := x\<rparr>) r fc err = line_step l r fc err"
  by (simp add: line_step_def split del: if_split cong: if_cong)

section \<open>The example loggers, evaluated\<close>

lemma Default_struct_fields:
  "Writer Default_struct = ''os.Stdout''"
  "Config Default_struct = Default_config"
  "Execution Default_struct = Execution_zero"
  by (simp_all add: Default_struct_def New_struct_def Default_config_def)

lemma sentry_struct_fields:
  "Writer sentry_struct = ''os.Stdout''"
  "Config sentry_struct = Default_config"
  "always (Execution sentry_struct) = Some ''dbBreadCrumb''"
  "warns (Execution sentry_struct) = Some ''dbSlow''"
  "slowSqlTrigger (Execution sentry_struct) = 100000000"
  "errors (Execution sentry_struct) = Some ''dbError''"
  "considerRecordNotFoundError (Execution sentry_struct) = False"
  "traceStr sentry_struct = traceStr Default_struct"
  "traceErrStr sentry_struct = traceErrStr Default_struct"
  "traceWarnStr sentry_struct = traceWarnStr Default_struct"
  by (simp_all add: sentry_struct_def Default_struct_fields)

lemma considering_struct_fields:
  "Writer considering_struct = ''os.Stdout''"
  "Config considering_struct = Default_config"
  "always (Execution considering_struct) = Some ''dbBreadCrumb''"
  "warns (Execution considering_struct) = Some ''dbSlow''"
  "slowSqlTrigger (Execution considering_struct) = 100000000"
  "errors (Execution considering_struct) = Some ''dbError''"
  "considerRecordNotFoundError (Execution considering_struct) = True"
  "traceStr considering_struct = traceStr Default_struct"
  "traceErrStr considering_struct = traceErrStr Default_struct"
  "traceWarnStr considering_struct = traceWarnStr Default_struct"
  by (simp_all add: considering_struct_def sentry_struct_fields)

lemma Default_config_fields:
  "SlowThreshold Default_config = 200000000"
  "Colorful Default_config = True"
  "IgnoreRecordNotFoundError Default_config = False"
  "LogLevel Default_config = 3"
  by (simp_all add: Default_config_def Warn_def)

lemma reading_fields:
  "since_begin slow_reading = 250000000"
  "since_begin fast_reading = 50000000"
  "location_record slow_reading = ''main.go:42''"
  "location_record fast_reading = ''main.go:42''"
  "location_line slow_reading = ''main.go:42''"
  "location_line fast_reading = ''main.go:42''"
  by (simp_all add: slow_reading_def fast_reading_def)

section \<open>The error callback\<close>

text \<open>
  C2. In every \<open>Trace\<close> call the error callback is invoked if and only if \<open>err\<close> is not
  nil, and \<open>err\<close> is not the not-found sentinel or \<open>considerRecordNotFoundError\<close> is set,
  and a callback is registered in \<open>errors\<close>; it is then called with the record of the
  statement. In particular, with \<open>considerRecordNotFoundError\<close> set and \<open>err\<close> equal to the
  sentinel, a registered error callback fires. "Is the sentinel" is what
  \<^verbatim>\<open>errors.Is(err, ErrRecordNotFound)\<close> decides.
\<close>

theorem error_callback_iff:
  "(Call errors_field f g \<in> set (Trace l r fc err) \<longleftrightarrow>
      err \<noteq> None
      \<and> (\<not> errors_Is err ErrRecordNotFound \<or> considerRecordNotFoundError (Execution l))
      \<and> errors (Execution l) = Some f \<and> g = trace_infos r fc err)
   \<and> (considerRecordNotFoundError (Execution l) \<and> errors (Execution l) = Some f
        \<longrightarrow> Call errors_field f (trace_infos r fc (Some ErrRecordNotFound))
              \<in> set (Trace l r fc (Some ErrRecordNotFound)))"
  by (simp add: Call_in_Trace Call_in_always_step Call_in_slow_step Call_in_error_step)

theorem error_callback_iff_witness:
  "considerRecordNotFoundError (Execution considering_struct)
   \<and> errors (Execution considering_struct) = Some ''dbError''
   \<and> errors_Is (Some ErrRecordNotFound) ErrRecordNotFound
   \<and> Call errors_field ''dbError'' (trace_infos fast_reading users_query (Some ErrRecordNotFound))
        \<in> set (Trace considering_struct fast_reading users_query (Some ErrRecordNotFound))
   \<and> Call errors_field ''dbError'' (trace_infos fast_reading users_query (Some ErrRecordNotFound))
        \<notin> set (Trace sentry_struct fast_reading users_query (Some ErrRecordNotFound))"
  using error_callback_iff [of "''dbError''"
      "trace_infos fast_reading users_query (Some ErrRecordNotFound)" considering_struct
      fast_reading users_query "Some ErrRecordNotFound"]
    error_callback_iff [of "''dbError''"
      "trace_infos fast_reading users_query (Some ErrRecordNotFound)" sentry_struct
      fast_reading users_query "Some ErrRecordNotFound"]
  by (simp add: considering_struct_fields sentry_struct_fields errors_Is_sentinel)

section \<open>The slow callback\<close>

text \<open>
  C8. In every \<open>Trace\<close> call the slow callback is invoked if and only if
  \<open>slowSqlTrigger\<close> is not zero, the elapsed time exceeds it and a callback is registered
  in \<open>warns\<close>. The formatting threshold \<open>SlowThreshold\<close> plays no part in it: changing it
  leaves the callbacks that fire unchanged. A \<open>slowSqlTrigger\<close> of zero disables the slow
  callback.
\<close>

theorem slow_callback_iff:
  "(Call warns_field f g \<in> set (Trace l r fc err) \<longleftrightarrow>
      slowSqlTrigger (Execution l) \<noteq> 0 \<and> since_begin r > slowSqlTrigger (Execution l)
      \<and> warns (Execution l) = Some f \<and> g = trace_infos r fc err)
   \<and> calls_of (Trace (l\<lparr>Config := (Config l)\<lparr>SlowThreshold := t\<rparr>\<rparr>) r fc err)
       = calls_of (Trace l r fc err)
   \<and> (slowSqlTrigger (Execution l) = 0 \<longrightarrow> Call warns_field f g \<notin> set (Trace l r fc err))"
proof -
  have "Call warns_field f g \<in> set (Trace l r fc err) \<longleftrightarrow>
      slowSqlTrigger (Execution l) \<noteq> 0 \<and> since_begin r > slowSqlTrigger (Execution l)
      \<and> warns (Execution l) = Some f \<and> g = trace_infos r fc err"
    by (simp add: Call_in_Trace Call_in_always_step Call_in_slow_step Call_in_error_step)
  moreover have "calls_of (Trace (l\<lparr>Config := (Config l)\<lparr>SlowThreshold := t\<rparr>\<rparr>) r fc err)
       = calls_of (Trace l r fc err)"
    by (simp add: calls_of_Trace steps_Config_update)
  ultimately show ?thesis by simp
qed

theorem slow_callback_iff_witness:
  "slowSqlTrigger (Execution sentry_struct) \<noteq> 0
   \<and> since_begin slow_reading > slowSqlTrigger (Execution sentry_struct)
   \<and> \<not> since_begin fast_reading > slowSqlTrigger (Execution sentry_struct)
   \<and> Call warns_field ''dbSlow'' (trace_infos slow_reading users_query None)
        \<in> set (Trace sentry_struct slow_reading users_query None)
   \<and> Call warns_field ''dbSlow'' (trace_infos fast_reading users_query None)
        \<notin> set (Trace sentry_struct fast_reading users_query None)
   \<and> Call warns_field ''dbSlow'' (trace_infos slow_reading users_query None)
        \<notin> set (Trace (sentry_struct\<lparr>Execution :=
                   (Execution sentry_struct)\<lparr>slowSqlTrigger := 0\<rparr>\<rparr>) slow_reading users_query None)"
  using slow_callback_iff [of "''dbSlow''" "trace_infos slow_reading users_query None"
      sentry_struct slow_reading users_query None 0]
    slow_callback_iff [of "''dbSlow''" "trace_infos fast_reading users_query None"
      sentry_struct fast_reading users_query None 0]
    slow_callback_iff [of "''dbSlow''" "trace_infos slow_reading users_query None"
      "sentry_struct\<lparr>Execution := (Execution sentry_struct)\<lparr>slowSqlTrigger := 0\<rparr>\<rparr>"
      slow_reading users_query None 0]
  by (simp add: sentry_struct_fields reading_fields)

section \<open>The order of the calls\<close>

text \<open>
  C3. In every \<open>Trace\<close> call the callbacks that fire do so in the order always, slow,
  error, each at most once, and every callback is called before the formatted line is
  passed to the writer: the calls made are strictly increasing in rank (0 for the always
  callback, 1 for the slow one, 2 for the error one, 3 for \<open>Printf\<close>). The registration
  methods only store into separate fields of the logger, so this holds for every logger
  value, whatever the order in which its callbacks were registered.
\<close>

theorem Trace_call_order:
  "sorted_wrt (<) (map rank (Trace l r fc err))"
  by (rule Trace_rank_sorted)

theorem Trace_call_order_witness:
  "sorted_wrt (<) (map rank (Trace considering_struct slow_reading users_query
       (Some ErrRecordNotFound)))
   \<and> map rank (Trace considering_struct slow_reading users_query (Some ErrRecordNotFound))
       = [0, 1, 2, 3]"
  using Trace_call_order [of considering_struct slow_reading users_query
      "Some ErrRecordNotFound"]
  by (simp add: Trace_steps always_step_def slow_step_def error_step_def line_step_def
      considering_struct_fields reading_fields Default_config_fields errors_Is_sentinel
      Silent_def Error_def users_query_def)

section \<open>The formatted line\<close>

text \<open>
  C4. At log level Silent (and at any level not above it) \<open>Trace\<close> passes no line to the
  writer, while the always callback, when registered, and the error callback, when
  registered and its condition holds, are still called. The callbacks that fire do not
  depend on the log level at all.
\<close>

theorem Silent_keeps_triggers:
  assumes "LogLevel (Config l) \<le> Silent"
  shows "lines_of (Trace l r fc err) = []
    \<and> (always (Execution l) = Some f
         \<longrightarrow> Call always_field f (trace_infos r fc err) \<in> set (Trace l r fc err))
    \<and> (errors (Execution l) = Some f' \<and> err \<noteq> None
         \<and> (\<not> errors_Is err ErrRecordNotFound \<or> considerRecordNotFoundError (Execution l))
         \<longrightarrow> Call errors_field f' (trace_infos r fc err) \<in> set (Trace l r fc err))
    \<and> calls_of (Trace (l\<lparr>Config := (Config l)\<lparr>LogLevel := level\<rparr>\<rparr>) r fc err)
         = calls_of (Trace l r fc err)"
proof -
  have "lines_of (Trace l r fc err) = []"
    using assms by (simp add: lines_of_Trace line_step_def)
  moreover have "always (Execution l) = Some f
      \<longrightarrow> Call always_field f (trace_infos r fc err) \<in> set (Trace l r fc err)"
    by (simp add: Call_in_Trace Call_in_always_step)
  moreover have "errors (Execution l) = Some f' \<and> err \<noteq> None
      \<and> (\<not> errors_Is err ErrRecordNotFound \<or> considerRecordNotFoundError (Execution l))
      \<longrightarrow> Call errors_field f' (trace_infos r fc err) \<in> set (Trace l r fc err)"
    by (simp add: Call_in_Trace Call_in_error_step)
  moreover have "calls_of (Trace (l\<lparr>Config := (Config l)\<lparr>LogLevel := level\<rparr>\<rparr>) r fc err)
      = calls_of (Trace l r fc err)"
    by (simp add: calls_of_Trace steps_Config_update)
  ultimately show ?thesis by simp
qed

theorem Silent_keeps_triggers_witness:
  "LogLevel (Config (considering_struct\<lparr>Config := Default_config\<lparr>LogLevel := Silent\<rparr>\<rparr>)) \<le> Silent
   \<and> Trace (considering_struct\<lparr>Config := Default_config\<lparr>LogLevel := Silent\<rparr>\<rparr>)
        slow_reading users_query (Some ErrRecordNotFound)
      = [Call always_field ''dbBreadCrumb''
           (trace_infos slow_reading users_query (Some ErrRecordNotFound)),
         Call warns_field ''dbSlow''
           (trace_infos slow_reading users_query (Some ErrRecordNotFound)),
         Call errors_field ''dbError''
           (trace_infos slow_reading users_query (Some ErrRecordNotFound))]
   \<and> lines_of (Trace (considering_struct\<lparr>Config := Default_config\<lparr>LogLevel := Silent\<rparr>\<rparr>)
        slow_reading users_query (Some ErrRecordNotFound)) = []"
  using Silent_keeps_triggers [of "considering_struct\<lparr>Config := Default_config\<lparr>LogLevel := Silent\<rparr>\<rparr>"
      slow_reading users_query "Some ErrRecordNotFound" "''dbBreadCrumb''" "''dbError''" Silent]
  by (simp add: Trace_steps always_step_def slow_step_def error_step_def line_step_def
      considering_struct_fields reading_fields errors_Is_sentinel)

text \<open>
  C5. Above level Silent, \<open>Trace\<close> passes to the writer the line of the branch that the
  specification selects top to bottom, and nothing else: the error line when \<open>err\<close> is
  not nil, the level is at least Error and \<open>err\<close> is not the sentinel or not-found errors
  are not ignored; else the slow line, with the message \<^verbatim>\<open>SLOW SQL >= %v\<close> formatted with
  \<open>SlowThreshold\<close>, when the elapsed time exceeds a nonzero \<open>SlowThreshold\<close> and the level
  is at least Warn; else the info line when the level is exactly Info; else no line.
\<close>

theorem format_branch_first_match:
  assumes "LogLevel (Config l) > Silent"
  shows "lines_of (Trace l r fc err) =
      (case spec_branch (Config l) (since_begin r) err of
         ErrorBranch \<Rightarrow>
           [Printf (Writer l) (traceErrStr l)
              [VString (location_line r), VError err,
               VFloat64 (NanosecondsDiv1e6 (since_begin r)), rows_arg (snd fc),
               VString (fst fc)]]
       | SlowBranch \<Rightarrow>
           [Printf (Writer l) (traceWarnStr l)
              [VString (location_line r),
               VSprintf ''SLOW SQL >= %v'' [VDuration (SlowThreshold (Config l))],
               VFloat64 (NanosecondsDiv1e6 (since_begin r)), rows_arg (snd fc),
               VString (fst fc)]]
       | InfoBranch \<Rightarrow>
           [Printf (Writer l) (traceStr l)
              [VString (location_line r), VFloat64 (NanosecondsDiv1e6 (since_begin r)),
               rows_arg (snd fc), VString (fst fc)]]
       | NoLine \<Rightarrow> [])"
  using assms
  by (simp add: lines_of_Trace line_step_branch error_trace_line_def slow_trace_line_def
      info_trace_line_def split: branch.split)

theorem format_branch_first_match_witness:
  "LogLevel (Config sentry_struct) > Silent
   \<and> spec_branch (Config sentry_struct) (since_begin slow_reading) (Some (ErrorNew ''timeout''))
       = ErrorBranch
   \<and> lines_of (Trace sentry_struct slow_reading users_query (Some (ErrorNew ''timeout''))) =
       [Printf ''os.Stdout'' (traceErrStr Default_struct)
          [VString ''main.go:42'', VError (Some (ErrorNew ''timeout'')),
           VFloat64 (NanosecondsDiv1e6 250000000), VInt64 3, VString ''SELECT * FROM users'']]
   \<and> spec_branch (Config sentry_struct) (since_begin slow_reading) None = SlowBranch
   \<and> lines_of (Trace sentry_struct slow_reading users_query None) =
       [Printf ''os.Stdout'' (traceWarnStr Default_struct)
          [VString ''main.go:42'', VSprintf ''SLOW SQL >= %v'' [VDuration 200000000],
           VFloat64 (NanosecondsDiv1e6 250000000), VInt64 3, VString ''SELECT * FROM users'']]
   \<and> spec_branch (Config sentry_struct) (since_begin fast_reading) None = NoLine
   \<and> lines_of (Trace sentry_struct fast_reading users_query None) = []
   \<and> LogLevel (Config (sentry_struct\<lparr>Config := Default_config\<lparr>LogLevel := Info\<rparr>\<rparr>)) > Silent
   \<and> spec_branch (Default_config\<lparr>LogLevel := Info\<rparr>) (since_begin fast_reading) None = InfoBranch
   \<and> lines_of (Trace (sentry_struct\<lparr>Config := Default_config\<lparr>LogLevel := Info\<rparr>\<rparr>)
        fast_reading users_query None) =
       [Printf ''os.Stdout'' (traceStr Default_struct)
          [VString ''main.go:42'', VFloat64 (NanosecondsDiv1e6 50000000), VInt64 3,
           VString ''SELECT * FROM users'']]"
  using format_branch_first_match [of sentry_struct slow_reading users_query
      "Some (ErrorNew ''timeout'')"]
    format_branch_first_match [of sentry_struct slow_reading users_query None]
    format_branch_first_match [of sentry_struct fast_reading users_query None]
    format_branch_first_match [of "sentry_struct\<lparr>Config := Default_config\<lparr>LogLevel := Info\<rparr>\<rparr>"
      fast_reading users_query None]
  by (simp add: spec_branch_def sentry_struct_fields reading_fields Default_config_fields
      errors_Is_def rows_arg_def users_query_def Silent_def Error_def Warn_def Info_def)

text \<open>
  C7. In every line that \<open>Trace\<close> passes to the writer, whichever the branch, the last
  argument is the statement text and the one before it, printed by the \<^verbatim>\<open>[rows:%v]\<close> verb
  of the template, is the string \<^verbatim>\<open>-\<close> when the row count is -1 and the integer row
  count otherwise, so in particular when it is not negative.
\<close>

theorem rows_placeholder:
  assumes "Printf w fmt args \<in> set (Trace l r fc err)"
  shows "\<exists>before. args = before @ [if snd fc = -1 then VString ''-'' else VInt64 (snd fc),
                                   VString (fst fc)]"
proof -
  from assms have "Printf w fmt args \<in> set (line_step l r fc err)"
    by (simp add: Printf_in_Trace)
  then have "args = [VString (location_line r), VError err,
                     VFloat64 (NanosecondsDiv1e6 (since_begin r))]
                    @ [rows_arg (snd fc), VString (fst fc)]
      \<or> args = [VString (location_line r),
                 VSprintf ''SLOW SQL >= %v'' [VDuration (SlowThreshold (Config l))],
                 VFloat64 (NanosecondsDiv1e6 (since_begin r))]
                @ [rows_arg (snd fc), VString (fst fc)]
      \<or> args = [VString (location_line r), VFloat64 (NanosecondsDiv1e6 (since_begin r))]
                @ [rows_arg (snd fc), VString (fst fc)]"
    by (auto simp: line_step_def rows_arg_def split: if_splits)
  then show ?thesis
    unfolding rows_arg_def by blast
qed

theorem rows_placeholder_witness:
  "Printf ''os.Stdout'' (traceWarnStr Default_struct)
      [VString ''main.go:42'', VSprintf ''SLOW SQL >= %v'' [VDuration 200000000],
       VFloat64 (NanosecondsDiv1e6 250000000), VString ''-'', VString ''COMMIT'']
     \<in> set (Trace sentry_struct slow_reading (''COMMIT'', -1) None)
   \<and> (\<exists>before. [VString ''main.go:42'', VSprintf ''SLOW SQL >= %v'' [VDuration 200000000],
                  VFloat64 (NanosecondsDiv1e6 250000000), VString ''-'', VString ''COMMIT'']
         = before @ [VString ''-'', VString ''COMMIT''])"
proof -
  have m: "Printf ''os.Stdout'' (traceWarnStr Default_struct)
      [VString ''main.go:42'', VSprintf ''SLOW SQL >= %v'' [VDuration 200000000],
       VFloat64 (NanosecondsDiv1e6 250000000), VString ''-'', VString ''COMMIT'']
     \<in> set (Trace sentry_struct slow_reading (''COMMIT'', -1) None)"
    by (simp add: Printf_in_Trace line_step_def sentry_struct_fields reading_fields
        Default_config_fields Silent_def Error_def Warn_def Info_def)
  from rows_placeholder [OF m] m show ?thesis by simp
qed

section \<open>Not-found errors\<close>

lemma error_trace_line_in_Trace:
  "error_trace_line l r fc err \<in> set (Trace l' r' fc' err') \<longleftrightarrow>
     error_trace_line l r fc err \<in> set (line_step l' r' fc' err')"
  by (simp add: error_trace_line_def Printf_in_Trace)

lemma error_line_needs_error_branch:
  assumes "errors_Is err ErrRecordNotFound" and "IgnoreRecordNotFoundError (Config l)"
  shows "Printf w fmt args \<in> set (line_step l r fc err) \<Longrightarrow> VError err \<notin> set args"
  using assms by (auto simp: line_step_def split: if_splits)

lemma filter_rank_steps:
  "filter (\<lambda>e. rank e \<noteq> 2) (always_step l g) = always_step l g"
  "filter (\<lambda>e. rank e \<noteq> 2) (slow_step l d g) = slow_step l d g"
  "filter (\<lambda>e. rank e \<noteq> 2) (error_step l err g) = []"
  "filter (\<lambda>e. rank e \<noteq> 2) (line_step l r fc err) = line_step l r fc err"
  using rank_steps(1) [of l g] rank_steps(2) [of l d g] rank_steps(3) [of l err g]
    rank_steps(4) [of l r fc err]
  by (simp_all add: filter_empty_conv filter_id_conv)

text \<open>
  C1, as the code has it. In every \<open>Trace\<close> call where \<open>considerRecordNotFoundError\<close> is
  false and \<open>err\<close> is the not-found sentinel, the error callback is not invoked. The
  error line is a matter of the other flag: it is not passed to the writer, nor any line
  carrying the error, when \<open>IgnoreRecordNotFoundError\<close> is true, at whatever log level.
\<close>

theorem not_found_without_consider:
  assumes "errors_Is err ErrRecordNotFound"
    and "\<not> considerRecordNotFoundError (Execution l)"
  shows "Call errors_field f g \<notin> set (Trace l r fc err)
    \<and> (IgnoreRecordNotFoundError (Config l) \<longrightarrow>
         error_trace_line l r fc err \<notin> set (Trace l r fc err)
         \<and> (\<forall>w fmt args. Printf w fmt args \<in> set (Trace l r fc err)
               \<longrightarrow> VError err \<notin> set args))"
proof -
  have "Call errors_field f g \<notin> set (Trace l r fc err)"
    using assms
    by (simp add: Call_in_Trace Call_in_always_step Call_in_slow_step Call_in_error_step)
  moreover have "\<forall>w fmt args. Printf w fmt args \<in> set (Trace l r fc err)
      \<longrightarrow> VError err \<notin> set args" if "IgnoreRecordNotFoundError (Config l)"
    using error_line_needs_error_branch [OF assms(1) that]
    by (simp add: Printf_in_Trace)
  moreover have "error_trace_line l r fc err \<notin> set (Trace l r fc err)"
    if "IgnoreRecordNotFoundError (Config l)"
    using error_line_needs_error_branch [OF assms(1) that,
        of "Writer l" "traceErrStr l" "[VString (location_line r), VError err,
          VFloat64 (NanosecondsDiv1e6 (since_begin r)), rows_arg (snd fc), VString (fst fc)]"
        r fc]
    by (auto simp: error_trace_line_def Printf_in_Trace)
  ultimately show ?thesis by blast
qed

theorem not_found_without_consider_witness:
  "errors_Is (Some ErrRecordNotFound) ErrRecordNotFound
   \<and> \<not> considerRecordNotFoundError
        (Execution (sentry_struct\<lparr>Config := Default_config\<lparr>IgnoreRecordNotFoundError := True\<rparr>\<rparr>))
   \<and> IgnoreRecordNotFoundError
        (Config (sentry_struct\<lparr>Config := Default_config\<lparr>IgnoreRecordNotFoundError := True\<rparr>\<rparr>))
   \<and> Call errors_field ''dbError'' (trace_infos fast_reading users_query (Some ErrRecordNotFound))
       \<notin> set (Trace (sentry_struct\<lparr>Config := Default_config\<lparr>IgnoreRecordNotFoundError := True\<rparr>\<rparr>)
                fast_reading users_query (Some ErrRecordNotFound))
   \<and> error_trace_line
         (sentry_struct\<lparr>Config := Default_config\<lparr>IgnoreRecordNotFoundError := True\<rparr>\<rparr>)
         fast_reading users_query (Some ErrRecordNotFound)
       \<notin> set (Trace (sentry_struct\<lparr>Config := Default_config\<lparr>IgnoreRecordNotFoundError := True\<rparr>\<rparr>)
                fast_reading users_query (Some ErrRecordNotFound))"
proof -
  let ?l = "sentry_struct\<lparr>Config := Default_config\<lparr>IgnoreRecordNotFoundError := True\<rparr>\<rparr>"
  have s: "errors_Is (Some ErrRecordNotFound) ErrRecordNotFound"
    by (simp add: errors_Is_def)
  have c: "\<not> considerRecordNotFoundError (Execution ?l)"
    by (simp add: sentry_struct_fields)
  have i: "IgnoreRecordNotFoundError (Config ?l)"
    by simp
  from not_found_without_consider [OF s c, of "''dbError''"
      "trace_infos fast_reading users_query (Some ErrRecordNotFound)" fast_reading users_query]
    s c i
  show ?thesis by blast
qed

text \<open>
  C1 as stated fails on the package's own \<open>Default\<close> configuration (level Warn,
  \<open>IgnoreRecordNotFoundError\<close> false) with the callbacks of the readme registered and
  \<open>considerRecordNotFoundError\<close> false: for the sentinel the error callback stays silent,
  but the error line is passed to the writer.
\<close>

theorem not_found_line_counterexample:
  "\<not> considerRecordNotFoundError (Execution sentry_struct)
   \<and> errors_Is (Some ErrRecordNotFound) ErrRecordNotFound
   \<and> LogLevel (Config sentry_struct) \<ge> Error
   \<and> Trace sentry_struct fast_reading users_query (Some ErrRecordNotFound)
      = [Call always_field ''dbBreadCrumb''
           \<lparr>Location = ''main.go:42'', AffectedRows = 3,
            QueryDuration = NanosecondsDiv1e6 50000000, Sql = ''SELECT * FROM users'',
            Err = Some ErrRecordNotFound\<rparr>,
         Printf ''os.Stdout''
           (RedBold @ ''%s '' @ MagentaBold @ ''%s'' @ LF @ Reset @ Yellow @ ''[%.3fms] ''
              @ BlueBold @ ''[rows:%v]'' @ Reset @ '' %s'')
           [VString ''main.go:42'', VError (Some ErrRecordNotFound),
            VFloat64 (NanosecondsDiv1e6 50000000), VInt64 3, VString ''SELECT * FROM users'']]
   \<and> error_trace_line sentry_struct fast_reading users_query (Some ErrRecordNotFound)
       \<in> set (Trace sentry_struct fast_reading users_query (Some ErrRecordNotFound))"
proof -
  have t: "traceErrStr Default_struct =
      RedBold @ ''%s '' @ MagentaBold @ ''%s'' @ LF @ Reset @ Yellow @ ''[%.3fms] ''
        @ BlueBold @ ''[rows:%v]'' @ Reset @ '' %s''"
    by (simp add: Default_struct_def New_struct_def Default_config_def)
  show ?thesis
    unfolding Trace_steps t [symmetric]
    by (simp add: always_step_def slow_step_def error_step_def line_step_def
        error_trace_line_def rows_arg_def trace_infos_def
        sentry_struct_fields reading_fields Default_config_fields errors_Is_sentinel
        Silent_def Error_def users_query_def)
qed

text \<open>
  C9. Whether \<open>Trace\<close> passes the error line for a not-found error is a matter of
  \<open>IgnoreRecordNotFoundError\<close> alone: with \<open>err\<close> the sentinel and the level at least
  Error, the error line is emitted exactly when \<open>IgnoreRecordNotFoundError\<close> is false,
  and then it is the only line, whatever \<open>considerRecordNotFoundError\<close> is set to. That
  flag changes nothing but the call of the error callback: the lines, and all calls
  other than the error callback's, are the same for both of its values.
\<close>

theorem not_found_line_governed_by_ignore_flag:
  assumes "errors_Is err ErrRecordNotFound"
    and "LogLevel (Config l) \<ge> Error"
  shows "(error_trace_line l r fc err
            \<in> set (Trace (l\<lparr>Execution := (Execution l)\<lparr>considerRecordNotFoundError := b\<rparr>\<rparr>)
                      r fc err)
          \<longleftrightarrow> \<not> IgnoreRecordNotFoundError (Config l))
    \<and> (\<not> IgnoreRecordNotFoundError (Config l) \<longrightarrow>
          lines_of (Trace (l\<lparr>Execution := (Execution l)\<lparr>considerRecordNotFoundError := b\<rparr>\<rparr>)
                      r fc err)
          = [error_trace_line l r fc err])
    \<and> lines_of (Trace (l\<lparr>Execution := (Execution l)\<lparr>considerRecordNotFoundError := b\<rparr>\<rparr>)
                   r fc err)
        = lines_of (Trace l r fc err)
    \<and> filter (\<lambda>e. rank e \<noteq> 2)
          (Trace (l\<lparr>Execution := (Execution l)\<lparr>considerRecordNotFoundError := b\<rparr>\<rparr>) r fc err)
        = filter (\<lambda>e. rank e \<noteq> 2) (Trace l r fc err)"
proof -
  let ?l = "l\<lparr>Execution := (Execution l)\<lparr>considerRecordNotFoundError := b\<rparr>\<rparr>"
  from assms(1) have nonnil: "err \<noteq> None"
    by (rule errors_Is_not_nil)
  from assms(2) have active: "\<not> LogLevel (Config l) \<le> Silent"
    by (simp add: Error_def Silent_def)
  have branch: "spec_branch (Config l) (since_begin r) err = ErrorBranch
      \<longleftrightarrow> \<not> IgnoreRecordNotFoundError (Config l)"
    using assms nonnil by (simp add: spec_branch_def)
  have same: "line_step ?l r fc err = line_step l r fc err"
    by (rule line_step_Execution_update)
  have emitted: "line_step l r fc err = [error_trace_line l r fc err]"
    if "\<not> IgnoreRecordNotFoundError (Config l)"
    using that active branch by (simp add: line_step_branch)
  have suppressed: "error_trace_line l r fc err \<notin> set (line_step l r fc err)"
    if "IgnoreRecordNotFoundError (Config l)"
    using that active branch trace_lines_distinct(1,2) [of l r fc err]
    by (cases "spec_branch (Config l) (since_begin r) err") (simp_all add: line_step_branch)
  have "error_trace_line l r fc err \<in> set (Trace ?l r fc err)
      \<longleftrightarrow> \<not> IgnoreRecordNotFoundError (Config l)"
    using emitted suppressed by (auto simp: error_trace_line_in_Trace same)
  moreover have "\<not> IgnoreRecordNotFoundError (Config l) \<longrightarrow>
      lines_of (Trace ?l r fc err) = [error_trace_line l r fc err]"
    using emitted by (simp add: lines_of_Trace same)
  moreover have "lines_of (Trace ?l r fc err) = lines_of (Trace l r fc err)"
    by (simp add: lines_of_Trace same)
  moreover have "filter (\<lambda>e. rank e \<noteq> 2) (Trace ?l r fc err)
      = filter (\<lambda>e. rank e \<noteq> 2) (Trace l r fc err)"
    by (simp add: Trace_steps filter_rank_steps steps_consider_update same)
  ultimately show ?thesis by blast
qed

theorem not_found_line_governed_by_ignore_flag_witness:
  "errors_Is (Some ErrRecordNotFound) ErrRecordNotFound
   \<and> LogLevel (Config sentry_struct) \<ge> Error
   \<and> \<not> IgnoreRecordNotFoundError (Config sentry_struct)
   \<and> lines_of (Trace considering_struct fast_reading users_query (Some ErrRecordNotFound))
       = [error_trace_line sentry_struct fast_reading users_query (Some ErrRecordNotFound)]
   \<and> lines_of (Trace sentry_struct fast_reading users_query (Some ErrRecordNotFound))
       = [error_trace_line sentry_struct fast_reading users_query (Some ErrRecordNotFound)]"
proof -
  have s: "errors_Is (Some ErrRecordNotFound) ErrRecordNotFound"
    by (simp add: errors_Is_def)
  have v: "LogLevel (Config sentry_struct) \<ge> Error"
    by (simp add: sentry_struct_fields Default_config_fields Error_def)
  have i: "\<not> IgnoreRecordNotFoundError (Config sentry_struct)"
    by (simp add: sentry_struct_fields Default_config_fields)
  from not_found_line_governed_by_ignore_flag [OF s v, of fast_reading users_query True] i
  have "lines_of (Trace considering_struct fast_reading users_query (Some ErrRecordNotFound))
      = [error_trace_line sentry_struct fast_reading users_query (Some ErrRecordNotFound)]"
    and "lines_of (Trace considering_struct fast_reading users_query (Some ErrRecordNotFound))
      = lines_of (Trace sentry_struct fast_reading users_query (Some ErrRecordNotFound))"
    unfolding considering_struct_def by blast+
  with s v i show ?thesis by simp
qed

section \<open>Methods on the pointer\<close>

lemma deref_alloc: "deref (h @ [c]) (Ref (length h)) = Inr c"
  by simp

lemma deref_fresh: "deref h (Ref (length h)) = Inl NilPointerDereference"
  by simp

lemma deref_after_alloc: "deref h p = Inr x \<Longrightarrow> deref (h @ [c]) p = Inr x"
  by (cases p) (auto simp: nth_append split: if_splits)

lemma deref_append_other: "l \<noteq> Ref (length h) \<Longrightarrow> deref (h @ [x]) l = deref h l"
  by (cases l) (auto simp: nth_append)

lemma deref_assign_same: "deref h l = Inr c \<Longrightarrow> deref (assign h l c') l = Inr c'"
  by (cases l) (auto split: if_splits)

lemma deref_assign_other: "p \<noteq> l \<Longrightarrow> deref (assign h l c') p = deref h p"
  by (cases l; cases p) auto

lemma length_assign: "length (assign h l c') = length h"
  by (cases l) simp_all

lemma slow_line_in_line_step:
  "slow_trace_line l r fc \<in> set (line_step l r fc err) \<longleftrightarrow>
     \<not> (err \<noteq> None
        \<and> (\<not> errors_Is err ErrRecordNotFound \<or> \<not> IgnoreRecordNotFoundError (Config l)))
     \<and> since_begin r > SlowThreshold (Config l) \<and> SlowThreshold (Config l) \<noteq> 0
     \<and> LogLevel (Config l) \<ge> Warn"
proof (cases "LogLevel (Config l) \<le> Silent")
  case True
  then show ?thesis by (simp add: line_step_branch Silent_def Warn_def)
next
  case False
  then have level: "Error \<le> LogLevel (Config l)" by (simp add: Silent_def Error_def)
  have ne: "slow_trace_line l r fc \<noteq> error_trace_line l r fc err"
    "slow_trace_line l r fc \<noteq> info_trace_line l r fc"
    using trace_lines_distinct(1) [of l r fc err] trace_lines_distinct(3) [of l r fc]
    by simp_all
  show ?thesis
  proof (cases "spec_branch (Config l) (since_begin r) err")
    case ErrorBranch
    with False level ne show ?thesis
      by (auto simp: line_step_branch spec_branch_def split: if_splits)
  next
    case SlowBranch
    with False level ne show ?thesis
      by (auto simp: line_step_branch spec_branch_def split: if_splits)
  next
    case InfoBranch
    with False level ne show ?thesis
      by (auto simp: line_step_branch spec_branch_def split: if_splits)
  next
    case NoLine
    with False level ne show ?thesis
      by (auto simp: line_step_branch spec_branch_def split: if_splits)
  qed
qed

text \<open>
  The registration methods store into different fields of the receiver's struct, so two
  of them in either order leave the same heap; any order of the three is reached by such
  swaps.
\<close>

lemma Execution_updates_commute:
  "x\<lparr>warns := s, slowSqlTrigger := d, always := a\<rparr>
     = x\<lparr>always := a, warns := s, slowSqlTrigger := d\<rparr>"
  "x\<lparr>errors := e, always := a\<rparr> = x\<lparr>always := a, errors := e\<rparr>"
  "x\<lparr>errors := e, warns := s, slowSqlTrigger := d\<rparr>
     = x\<lparr>warns := s, slowSqlTrigger := d, errors := e\<rparr>"
  for x :: "'f Execution"
  by (cases x; simp)+

lemma registrations_commute:
  assumes "deref h l = Inr c"
  shows "\<exists>h1 h2 k1. AlwaysTrigger l a h = Inr (l, h1) \<and> SlowTrigger l s d h1 = Inr (l, h2)
           \<and> SlowTrigger l s d h = Inr (l, k1) \<and> AlwaysTrigger l a k1 = Inr (l, h2)"
    and "\<exists>h1 h2 k1. AlwaysTrigger l a h = Inr (l, h1) \<and> ErrorTrigger l e h1 = Inr (l, h2)
           \<and> ErrorTrigger l e h = Inr (l, k1) \<and> AlwaysTrigger l a k1 = Inr (l, h2)"
    and "\<exists>h1 h2 k1. SlowTrigger l s d h = Inr (l, h1) \<and> ErrorTrigger l e h1 = Inr (l, h2)
           \<and> ErrorTrigger l e h = Inr (l, k1) \<and> SlowTrigger l s d k1 = Inr (l, h2)"
proof -
  from assms obtain n where l: "l = Ref n" and n: "n < length h" and c: "c = h ! n"
    by (cases l) (auto split: if_splits)
  show "\<exists>h1 h2 k1. AlwaysTrigger l a h = Inr (l, h1) \<and> SlowTrigger l s d h1 = Inr (l, h2)
           \<and> SlowTrigger l s d h = Inr (l, k1) \<and> AlwaysTrigger l a k1 = Inr (l, h2)"
    using n by (simp add: l AlwaysTrigger_def SlowTrigger_def Execution_updates_commute)
  show "\<exists>h1 h2 k1. AlwaysTrigger l a h = Inr (l, h1) \<and> ErrorTrigger l e h1 = Inr (l, h2)
           \<and> ErrorTrigger l e h = Inr (l, k1) \<and> AlwaysTrigger l a k1 = Inr (l, h2)"
    using n by (simp add: l AlwaysTrigger_def ErrorTrigger_def Execution_updates_commute)
  show "\<exists>h1 h2 k1. SlowTrigger l s d h = Inr (l, h1) \<and> ErrorTrigger l e h1 = Inr (l, h2)
           \<and> ErrorTrigger l e h = Inr (l, k1) \<and> SlowTrigger l s d k1 = Inr (l, h2)"
    using n by (simp add: l SlowTrigger_def ErrorTrigger_def Execution_updates_commute)
qed

text \<open>
  C6. \<open>LogMode\<close> on a live logger returns a pointer to a newly allocated struct that equals
  the receiver's except for \<open>LogLevel\<close>, so with the same writer, callbacks, trigger
  settings and templates. No struct that existed before is changed: the receiver still
  holds its old value and \<open>Trace\<close> through it behaves as before, at its original level.
  Registering a callback through the new pointer leaves the receiver untouched.
\<close>

theorem LogMode_copies:
  assumes "deref h l = Inr c"
  shows "\<exists>l' h'. LogMode l level h = Inr (l', h')
    \<and> deref h l' = Inl NilPointerDereference
    \<and> deref h' l' = Inr (c\<lparr>Config := (Config c)\<lparr>LogLevel := level\<rparr>\<rparr>)
    \<and> (\<forall>p x. deref h p = Inr x \<longrightarrow> deref h' p = Inr x)
    \<and> Trace_at l h' r fc err = Inr (Trace c r fc err)
    \<and> Trace_at l h' r fc err = Trace_at l h r fc err
    \<and> Trace_at l' h' r fc err
        = Inr (Trace (c\<lparr>Config := (Config c)\<lparr>LogLevel := level\<rparr>\<rparr>) r fc err)
    \<and> (\<exists>h''. AlwaysTrigger l' f h' = Inr (l', h'') \<and> deref h'' l = Inr c)"
proof -
  let ?c = "c\<lparr>Config := (Config c)\<lparr>LogLevel := level\<rparr>\<rparr>"
  let ?l = "Ref (length h)" and ?h = "h @ [?c]"
  have run: "LogMode l level h = Inr (?l, ?h)"
    using assms by (simp add: LogMode_def alloc_def)
  have fresh: "deref h ?l = Inl NilPointerDereference"
    by (rule deref_fresh)
  have new: "deref ?h ?l = Inr ?c"
    by (rule deref_alloc)
  have kept: "\<forall>p x. deref h p = Inr x \<longrightarrow> deref ?h p = Inr x"
    using deref_after_alloc by blast
  with assms have old: "deref ?h l = Inr c"
    by blast
  from fresh assms have distinct: "l \<noteq> ?l"
    by auto
  have later: "\<exists>h''. AlwaysTrigger ?l f ?h = Inr (?l, h'') \<and> deref h'' l = Inr c"
    using assms distinct by (simp add: AlwaysTrigger_def deref_append_other)
  have here: "Trace_at l ?h r fc err = Inr (Trace c r fc err)"
    and before: "Trace_at l h r fc err = Inr (Trace c r fc err)"
    and there: "Trace_at ?l ?h r fc err = Inr (Trace ?c r fc err)"
    using old assms new by (simp_all add: Trace_at_def)
  from run fresh new kept later here before there show ?thesis
    by (intro exI [of _ ?l] exI [of _ ?h]) simp
qed

theorem LogMode_copies_witness:
  "deref [sentry_struct] (Ref 0) = Inr sentry_struct
   \<and> LogMode (Ref 0) Error [sentry_struct]
      = Inr (Ref 1, [sentry_struct, sentry_struct\<lparr>Config := (Config sentry_struct)\<lparr>LogLevel := Error\<rparr>\<rparr>])
   \<and> (\<exists>l' h'. LogMode (Ref 0) Error [sentry_struct] = Inr (l', h')
        \<and> Trace_at (Ref 0) h' slow_reading users_query None
            = Inr (Trace sentry_struct slow_reading users_query None)
        \<and> Trace_at l' h' slow_reading users_query None
            = Inr (Trace (sentry_struct\<lparr>Config := (Config sentry_struct)\<lparr>LogLevel := Error\<rparr>\<rparr>)
                     slow_reading users_query None))
   \<and> lines_of (Trace sentry_struct slow_reading users_query None)
      = [slow_trace_line sentry_struct slow_reading users_query]
   \<and> lines_of (Trace (sentry_struct\<lparr>Config := (Config sentry_struct)\<lparr>LogLevel := Error\<rparr>\<rparr>)
        slow_reading users_query None) = []"
proof -
  have d: "deref [sentry_struct] (Ref 0) = Inr sentry_struct"
    by simp
  have run: "LogMode (Ref 0) Error [sentry_struct]
      = Inr (Ref 1, [sentry_struct, sentry_struct\<lparr>Config := (Config sentry_struct)\<lparr>LogLevel := Error\<rparr>\<rparr>])"
    by (simp add: LogMode_def alloc_def)
  have before: "lines_of (Trace sentry_struct slow_reading users_query None)
      = [slow_trace_line sentry_struct slow_reading users_query]"
    by (simp add: lines_of_Trace line_step_branch spec_branch_def sentry_struct_fields
        reading_fields Default_config_fields Silent_def Error_def Warn_def Info_def)
  have after: "lines_of (Trace (sentry_struct\<lparr>Config := (Config sentry_struct)\<lparr>LogLevel := Error\<rparr>\<rparr>)
        slow_reading users_query None) = []"
    by (simp add: lines_of_Trace line_step_branch spec_branch_def sentry_struct_fields
        reading_fields Default_config_fields Silent_def Error_def Warn_def Info_def)
  from LogMode_copies [OF d, of Error slow_reading users_query None "Some ''dbBreadCrumb''"]
  have "\<exists>l' h'. LogMode (Ref 0) Error [sentry_struct] = Inr (l', h')
        \<and> Trace_at (Ref 0) h' slow_reading users_query None
            = Inr (Trace sentry_struct slow_reading users_query None)
        \<and> Trace_at l' h' slow_reading users_query None
            = Inr (Trace (sentry_struct\<lparr>Config := (Config sentry_struct)\<lparr>LogLevel := Error\<rparr>\<rparr>)
                     slow_reading users_query None)"
    by blast
  with d run before after show ?thesis by blast
qed

text \<open>
  C10. \<open>SetSlowSqlThreshold\<close> on a live logger stores the new duration into
  \<open>Config.SlowThreshold\<close> of the receiver's own struct and changes nothing else: every
  other field of that struct, and every other struct, is as before, and the callbacks that
  a later \<open>Trace\<close> fires are the same. That \<open>Trace\<close> uses the new threshold: it emits the
  slow line, whose message is \<^verbatim>\<open>SLOW SQL >= %v\<close> formatted with the new threshold, exactly when
  the error branch does not apply, the elapsed time exceeds the new nonzero threshold and
  the level is at least Warn.
\<close>

theorem SetSlowSqlThreshold_in_place:
  assumes "deref h l = Inr c"
  shows "\<exists>h'. SetSlowSqlThreshold l t h = Inr h'
    \<and> deref h' l = Inr (c\<lparr>Config := (Config c)\<lparr>SlowThreshold := t\<rparr>\<rparr>)
    \<and> length h' = length h
    \<and> (\<forall>p. p \<noteq> l \<longrightarrow> deref h' p = deref h p)
    \<and> Trace_at l h' r fc err
        = Inr (Trace (c\<lparr>Config := (Config c)\<lparr>SlowThreshold := t\<rparr>\<rparr>) r fc err)
    \<and> calls_of (Trace (c\<lparr>Config := (Config c)\<lparr>SlowThreshold := t\<rparr>\<rparr>) r fc err)
        = calls_of (Trace c r fc err)
    \<and> (Printf (Writer c) (traceWarnStr c)
          [VString (location_line r), VSprintf ''SLOW SQL >= %v'' [VDuration t],
           VFloat64 (NanosecondsDiv1e6 (since_begin r)), rows_arg (snd fc), VString (fst fc)]
          \<in> set (Trace (c\<lparr>Config := (Config c)\<lparr>SlowThreshold := t\<rparr>\<rparr>) r fc err)
        \<longleftrightarrow> \<not> (err \<noteq> None
                \<and> (\<not> errors_Is err ErrRecordNotFound
                    \<or> \<not> IgnoreRecordNotFoundError (Config c)))
             \<and> since_begin r > t \<and> t \<noteq> 0 \<and> LogLevel (Config c) \<ge> Warn)"
proof -
  let ?c = "c\<lparr>Config := (Config c)\<lparr>SlowThreshold := t\<rparr>\<rparr>"
  let ?h = "assign h l ?c"
  have run: "SetSlowSqlThreshold l t h = Inr ?h"
    using assms by (simp add: SetSlowSqlThreshold_def)
  have stored: "deref ?h l = Inr ?c"
    using assms by (rule deref_assign_same)
  have others: "\<forall>p. p \<noteq> l \<longrightarrow> deref ?h p = deref h p"
    by (simp add: deref_assign_other)
  have calls: "calls_of (Trace ?c r fc err) = calls_of (Trace c r fc err)"
    by (simp add: calls_of_Trace steps_Config_update)
  have line: "slow_trace_line ?c r fc = Printf (Writer c) (traceWarnStr c)
      [VString (location_line r), VSprintf ''SLOW SQL >= %v'' [VDuration t],
       VFloat64 (NanosecondsDiv1e6 (since_begin r)), rows_arg (snd fc), VString (fst fc)]"
    by (simp add: slow_trace_line_def)
  have "slow_trace_line ?c r fc \<in> set (Trace ?c r fc err)
      \<longleftrightarrow> \<not> (err \<noteq> None
              \<and> (\<not> errors_Is err ErrRecordNotFound \<or> \<not> IgnoreRecordNotFoundError (Config c)))
           \<and> since_begin r > t \<and> t \<noteq> 0 \<and> LogLevel (Config c) \<ge> Warn"
    using slow_line_in_line_step [of ?c r fc err]
    by (simp add: slow_trace_line_def Printf_in_Trace)
  with run stored others calls line show ?thesis
    by (simp add: Trace_at_def length_assign)
qed

theorem SetSlowSqlThreshold_in_place_witness:
  "deref [sentry_struct] (Ref 0) = Inr sentry_struct
   \<and> SetSlowSqlThreshold (Ref 0) 150000000 [sentry_struct]
      = Inr [sentry_struct\<lparr>Config := (Config sentry_struct)\<lparr>SlowThreshold := 150000000\<rparr>\<rparr>]
   \<and> since_begin slow_reading > 150000000 \<and> \<not> since_begin slow_reading > 300000000
   \<and> LogLevel (Config sentry_struct) \<ge> Warn
   \<and> Printf (Writer sentry_struct) (traceWarnStr sentry_struct)
        [VString (location_line slow_reading), VSprintf ''SLOW SQL >= %v'' [VDuration 150000000],
         VFloat64 (NanosecondsDiv1e6 (since_begin slow_reading)), rows_arg (snd users_query),
         VString (fst users_query)]
      \<in> set (Trace (sentry_struct\<lparr>Config := (Config sentry_struct)\<lparr>SlowThreshold := 150000000\<rparr>\<rparr>)
               slow_reading users_query None)
   \<and> Printf (Writer sentry_struct) (traceWarnStr sentry_struct)
        [VString (location_line slow_reading), VSprintf ''SLOW SQL >= %v'' [VDuration 300000000],
         VFloat64 (NanosecondsDiv1e6 (since_begin slow_reading)), rows_arg (snd users_query),
         VString (fst users_query)]
      \<notin> set (Trace (sentry_struct\<lparr>Config := (Config sentry_struct)\<lparr>SlowThreshold := 300000000\<rparr>\<rparr>)
               slow_reading users_query None)"
proof -
  have d: "deref [sentry_struct] (Ref 0) = Inr sentry_struct"
    by simp
  have run: "SetSlowSqlThreshold (Ref 0) 150000000 [sentry_struct]
      = Inr [sentry_struct\<lparr>Config := (Config sentry_struct)\<lparr>SlowThreshold := 150000000\<rparr>\<rparr>]"
    by (simp add: SetSlowSqlThreshold_def)
  have e: "since_begin slow_reading > 150000000" "\<not> since_begin slow_reading > 300000000"
    by (simp_all add: reading_fields)
  have v: "LogLevel (Config sentry_struct) \<ge> Warn"
    by (simp add: sentry_struct_fields Default_config_fields Warn_def)
  from SetSlowSqlThreshold_in_place [OF d, of 150000000 slow_reading users_query None]
  have "Printf (Writer sentry_struct) (traceWarnStr sentry_struct)
        [VString (location_line slow_reading), VSprintf ''SLOW SQL >= %v'' [VDuration 150000000],
         VFloat64 (NanosecondsDiv1e6 (since_begin slow_reading)), rows_arg (snd users_query),
         VString (fst users_query)]
      \<in> set (Trace (sentry_struct\<lparr>Config := (Config sentry_struct)\<lparr>SlowThreshold := 150000000\<rparr>\<rparr>)
               slow_reading users_query None)
    \<longleftrightarrow> \<not> ((None :: error option) \<noteq> None
            \<and> (\<not> errors_Is None ErrRecordNotFound
                \<or> \<not> IgnoreRecordNotFoundError (Config sentry_struct)))
         \<and> since_begin slow_reading > 150000000 \<and> (150000000 :: int) \<noteq> 0
         \<and> LogLevel (Config sentry_struct) \<ge> Warn"
    by blast
  with e v
  have yes: "Printf (Writer sentry_struct) (traceWarnStr sentry_struct)
        [VString (location_line slow_reading), VSprintf ''SLOW SQL >= %v'' [VDuration 150000000],
         VFloat64 (NanosecondsDiv1e6 (since_begin slow_reading)), rows_arg (snd users_query),
         VString (fst users_query)]
      \<in> set (Trace (sentry_struct\<lparr>Config := (Config sentry_struct)\<lparr>SlowThreshold := 150000000\<rparr>\<rparr>)
               slow_reading users_query None)"
    by simp
  from SetSlowSqlThreshold_in_place [OF d, of 300000000 slow_reading users_query None]
  have "Printf (Writer sentry_struct) (traceWarnStr sentry_struct)
        [VString (location_line slow_reading), VSprintf ''SLOW SQL >= %v'' [VDuration 300000000],
         VFloat64 (NanosecondsDiv1e6 (since_begin slow_reading)), rows_arg (snd users_query),
         VString (fst users_query)]
      \<in> set (Trace (sentry_struct\<lparr>Config := (Config sentry_struct)\<lparr>SlowThreshold := 300000000\<rparr>\<rparr>)
               slow_reading users_query None)
    \<longleftrightarrow> \<not> ((None :: error option) \<noteq> None
            \<and> (\<not> errors_Is None ErrRecordNotFound
                \<or> \<not> IgnoreRecordNotFoundError (Config sentry_struct)))
         \<and> since_begin slow_reading > 300000000 \<and> (300000000 :: int) \<noteq> 0
         \<and> LogLevel (Config sentry_struct) \<ge> Warn"
    by blast
  with e v
  have no: "Printf (Writer sentry_struct) (traceWarnStr sentry_struct)
        [VString (location_line slow_reading), VSprintf ''SLOW SQL >= %v'' [VDuration 300000000],
         VFloat64 (NanosecondsDiv1e6 (since_begin slow_reading)), rows_arg (snd users_query),
         VString (fst users_query)]
      \<notin> set (Trace (sentry_struct\<lparr>Config := (Config sentry_struct)\<lparr>SlowThreshold := 300000000\<rparr>\<rparr>)
               slow_reading users_query None)"
    by simp
  from d run e v yes no show ?thesis by blast
qed

end
